theory Spec2Isabelle
  imports Main "HOL-Library.Word" "HOL-Library.AList" "HOL-Library.Sublist"
begin

unbundle bit_operations_syntax

section \<open>JavaScript values used by the wire protocol\<close>

text \<open>
  A \<open>Uint8Array\<close> is a list of bytes. JavaScript numbers that hold lengths and
  offsets are integers far below \<open>2 ^ 53\<close>, so they are modelled as \<open>int\<close>
  (they can be negative: \<open>length - 2\<close> in \<open>parseFrameHeader\<close>).
\<close>

type_synonym u8 = "8 word"
type_synonym Uint8Array = "u8 list"

text \<open>
  \<open>%TypedArray%.prototype.slice(start, end)\<close> and \<open>String.prototype.slice\<close>: a
  negative index counts from the end, every index is clamped to \<open>[0, length]\<close>, and an
  end before the start gives the empty sequence. (\<open>slice\<close> is a constant of the word
  library, hence the suffix.)
\<close>

definition relative_index :: "int \<Rightarrow> nat \<Rightarrow> nat" where
  "relative_index i len = (if i < 0 then nat (max (int len + i) 0) else min (nat i) len)"

definition slice_js :: "'a list \<Rightarrow> int \<Rightarrow> int \<Rightarrow> 'a list" where
  "slice_js xs start end =
     (let k = relative_index start (length xs);
          final = relative_index end (length xs)
      in take (final - k) (drop k xs))"

definition slice_from_js :: "'a list \<Rightarrow> int \<Rightarrow> 'a list" where
  "slice_from_js xs start = drop (relative_index start (length xs)) xs"

text \<open>
  \<open>DataView\<close> accessors, big-endian (\<open>littleEndian = false\<close>). \<open>setUint32\<close> and
  \<open>setUint8\<close> convert their argument with \<open>ToUint32\<close> / \<open>ToUint8\<close>, that is modulo
  \<open>2 ^ 32\<close> / \<open>2 ^ 8\<close>. Out of range they raise \<open>RangeError\<close>; every call in
  \<open>protocol.ts\<close> is at an offset inside a buffer allocated or checked just before.
\<close>

definition getUint32 :: "Uint8Array \<Rightarrow> nat \<Rightarrow> int" where
  "getUint32 view off =
     uint (view ! off) * 2 ^ 24 + uint (view ! (off + 1)) * 2 ^ 16
       + uint (view ! (off + 2)) * 2 ^ 8 + uint (view ! (off + 3))"

definition setUint8 :: "Uint8Array \<Rightarrow> nat \<Rightarrow> int \<Rightarrow> Uint8Array" where
  "setUint8 view off v = view[off := word_of_int v]"

definition setUint32 :: "Uint8Array \<Rightarrow> nat \<Rightarrow> int \<Rightarrow> Uint8Array" where
  "setUint32 view off v =
     (let w = v mod 2 ^ 32
      in view[off := word_of_int (w div 2 ^ 24),
              off + 1 := word_of_int (w div 2 ^ 16),
              off + 2 := word_of_int (w div 2 ^ 8),
              off + 3 := word_of_int w])"

text \<open>\<open>%TypedArray%.prototype.set(source, offset)\<close>: copies \<open>source\<close> into place.\<close>

definition set_bytes :: "Uint8Array \<Rightarrow> Uint8Array \<Rightarrow> nat \<Rightarrow> Uint8Array" where
  "set_bytes bytes source off = take off bytes @ source @ drop (off + length source) bytes"

datatype error =
    HandshakeResponseTooShort nat
  | FrameHeaderTooShort nat
  | VersionMismatchError u8
  | AuthenticationFailed
  | UnexpectedStatus u8
  | ConnectionError
  | ConnectionClosed
  | NotConnected
  | ServerError string
  | UnexpectedResponse
  | TypeError

section \<open>protocol.ts\<close>

definition MAX_MESSAGE_SIZE :: int where
  "MAX_MESSAGE_SIZE = 16 * 1024 * 1024"

datatype MessageType = Request | Response | Notification

fun MessageType_code :: "MessageType \<Rightarrow> int" where
  "MessageType_code Request = 1"
| "MessageType_code Response = 2"
| "MessageType_code Notification = 3"

datatype Encoding = MessagePack | Json

fun Encoding_code :: "Encoding \<Rightarrow> int" where
  "Encoding_code MessagePack = 1"
| "Encoding_code Json = 2"

record ProtocolFlags =
  messagepack :: bool
  jsonFallback :: bool

definition flagsToByte :: "ProtocolFlags \<Rightarrow> u8" where
  "flagsToByte fl =
     (let byte = 0;
          byte = (if messagepack fl then byte OR 1 else byte);
          byte = (if jsonFallback fl then byte OR 2 else byte)
      in byte)"

definition byteToFlags :: "u8 \<Rightarrow> ProtocolFlags" where
  "byteToFlags byte = \<lparr>messagepack = (byte AND 1 \<noteq> 0), jsonFallback = (byte AND 2 \<noteq> 0)\<rparr>"

text \<open>
  The result of \<open>parseHandshakeResponse\<close>. The field \<open>sessionId\<close> of the source is
  \<open>session_id\<close> here, the session object has a field of the same name.
\<close>

record HandshakeResponse =
  status :: u8
  version :: u8
  flags :: ProtocolFlags
  session_id :: Uint8Array

definition parseHandshakeResponse :: "Uint8Array \<Rightarrow> error + HandshakeResponse" where
  "parseHandshakeResponse data =
     (if length data < 19 then Inl (HandshakeResponseTooShort (length data))
      else Inr \<lparr>status = data ! 0,
                version = data ! 1,
                flags = byteToFlags (data ! 2),
                session_id = slice_js data 3 19\<rparr>)"

definition buildFrame :: "MessageType \<Rightarrow> Encoding \<Rightarrow> Uint8Array \<Rightarrow> Uint8Array" where
  "buildFrame mt enc payload =
     (let len = int (length payload) + 2;
          bytes = replicate (6 + length payload) 0;
          bytes = setUint32 bytes 0 len;
          bytes = setUint8 bytes 4 (MessageType_code mt);
          bytes = setUint8 bytes 5 (Encoding_code enc)
      in set_bytes bytes payload 6)"

text \<open>
  The result of \<open>parseFrameHeader\<close>. \<open>msgType\<close> and \<open>encoding\<close> are the raw bytes
  \<open>data[4]\<close> and \<open>data[5]\<close>: the casts \<open>as MessageType\<close> and \<open>as Encoding\<close> check
  nothing. The field \<open>encoding\<close> of the source is \<open>frame_encoding\<close> here.
\<close>

record FrameHeader =
  payloadLength :: int
  msgType :: u8
  frame_encoding :: u8

definition parseFrameHeader :: "Uint8Array \<Rightarrow> error + FrameHeader" where
  "parseFrameHeader data =
     (if length data < 6 then Inl (FrameHeaderTooShort (length data))
      else (let len = getUint32 data 0;
                payloadLength = len - 2
            in Inr \<lparr>payloadLength = payloadLength,
                     msgType = data ! 4,
                     frame_encoding = data ! 5\<rparr>))"

definition hex_digit :: "nat \<Rightarrow> char" where
  "hex_digit n = ''0123456789abcdef'' ! n"

definition byte_hex :: "u8 \<Rightarrow> string" where
  "byte_hex b = [hex_digit (unat b div 16), hex_digit (unat b mod 16)]"

definition uuidToString :: "Uint8Array \<Rightarrow> string" where
  "uuidToString bytes =
     (let hex = concat (map byte_hex bytes)
      in slice_js hex 0 8 @ ''-'' @ slice_js hex 8 12 @ ''-'' @ slice_js hex 12 16 @ ''-''
           @ slice_js hex 16 20 @ ''-'' @ slice_from_js hex 20)"

section \<open>types.ts\<close>

text \<open>
  The type parameter \<open>'v\<close> stands for values the client never inspects (\<open>unknown\<close> in
  the source: document data, query results).
\<close>

datatype 'v Document =
  Document (doc_id: string) (doc_collection: string) (doc_data: 'v)
    (created_at: string) (updated_at: string)

datatype 'v ClientMessage =
    QueryMsg string string
  | SubscribeMsg string string
  | UnsubscribeMsg string
  | InsertMsg string string 'v
  | UpdateMsg string string string 'v
  | DeleteMsg string string string
  | ListCollectionsMsg string
  | PingMsg string

datatype 'v ChangeEvent =
    ChangeInitial "'v Document"
  | ChangeInsert "'v Document"
  | ChangeUpdate 'v "'v Document"
  | ChangeDelete "'v Document"

datatype 'v ServerMessage =
    ResultMsg string 'v
  | is_ChangeMsg: ChangeMsg string "'v ChangeEvent"
  | SubscribedMsg string
  | UnsubscribedMsg string
  | ErrorMsg string string
  | PongMsg string

fun msg_id :: "'v ServerMessage \<Rightarrow> string" where
  "msg_id (ResultMsg i _) = i"
| "msg_id (ChangeMsg i _) = i"
| "msg_id (SubscribedMsg i) = i"
| "msg_id (UnsubscribedMsg i) = i"
| "msg_id (ErrorMsg i _) = i"
| "msg_id (PongMsg i) = i"

section \<open>The message codec\<close>

text \<open>
  \<open>pack\<close> and \<open>unpack\<close> come from the package \<open>msgpackr\<close>, \<open>JSON\<close>,
  \<open>TextEncoder\<close> and \<open>TextDecoder\<close> from the runtime: they are parameters of the
  model. A decoder that throws returns \<open>None\<close>; the encoders are taken to be total.
  \<open>encodeMessage\<close> takes any value (\<open>msg: unknown\<close>), the type \<open>'a\<close>, and
  \<open>decodeMessage<T>\<close> returns a value of the type asked for, \<open>'b\<close>. The session
  encodes client messages and decodes server messages.
\<close>

record ('a, 'b) message_codec =
  pack :: "'a \<Rightarrow> Uint8Array"
  unpack :: "Uint8Array \<Rightarrow> 'b option"
  JSON_stringify :: "'a \<Rightarrow> string"
  JSON_parse :: "string \<Rightarrow> 'b option"
  TextEncoder_encode :: "string \<Rightarrow> Uint8Array"
  TextDecoder_decode :: "Uint8Array \<Rightarrow> string"

type_synonym 'v codec = "('v ClientMessage, 'v ServerMessage) message_codec"

definition encodeMessage :: "('a, 'b) message_codec \<Rightarrow> 'a \<Rightarrow> Encoding \<Rightarrow> Uint8Array" where
  "encodeMessage c msg enc =
     (if enc = MessagePack then pack c msg
      else TextEncoder_encode c (JSON_stringify c msg))"

text \<open>
  \<open>processFrames\<close> calls \<open>decodeMessage\<close> with the raw encoding byte of the frame
  header; \<open>encoding === Encoding.MessagePack\<close> compares it with 1, and every other
  byte selects JSON.
\<close>

definition decodeMessage :: "('a, 'b) message_codec \<Rightarrow> Uint8Array \<Rightarrow> u8 \<Rightarrow> 'b option" where
  "decodeMessage c data enc =
     (if uint enc = Encoding_code MessagePack then unpack c data
      else JSON_parse c (TextDecoder_decode c data))"

section \<open>tcp.ts: the session\<close>

text \<open>
  A pending request holds the \<open>resolve\<close> and \<open>reject\<close> functions of the promise that
  \<open>send\<close> returned, a subscription holds the user's callback. Both are opaque to the
  session: the model names them by a handle and records each call of them, in order, in
  the field \<open>effects\<close>, next to the calls of the handshake promise's functions and
  of the console. A promise is settled when the trace holds a call of its
  \<open>resolve\<close> or \<open>reject\<close>. The functions called are assumed not to re-enter the
  session while it handles an event. A callback of the user may throw:
  \<open>callback_throws\<close> says of which calls this is the end.
\<close>

type_synonym PendingRequest = nat
type_synonym Subscription = nat

datatype 'v effect =
    PromiseResolve PendingRequest "'v ServerMessage"
  | PromiseReject PendingRequest error
  | CallbackCall Subscription "'v ChangeEvent"
  | HandshakeResolve
  | HandshakeReject error
  | ConsoleErrorTooLarge int
  | ConsoleErrorDecode

text \<open>
  The fields of \<open>SquirrelDBTcp\<close>. \<open>socket\<close> is \<open>True\<close> when the field is not
  \<open>null\<close>; \<open>handshakeResolve\<close> and \<open>handshakeReject\<close> likewise. The two maps are
  association lists in insertion order, as a JavaScript \<open>Map\<close> iterates: \<open>set\<close> is
  \<open>AList.update\<close>, \<open>get\<close> is \<open>map_of\<close>, \<open>delete\<close> is \<open>AList.delete\<close>.
  The connection options are left out, they only feed the handshake request.

  The one value the code ever stores in \<open>socket\<close> is what \<open>Bun.connect\<close> returns in
  \<open>connectSocket\<close>, and that is a promise of the socket, not the socket: the call is
  not awaited. A promise has no \<open>write\<close> and no \<open>end\<close>, so \<open>this.socket.write(frame)\<close>
  and \<open>this.socket?.end()\<close> on a socket that is not \<open>null\<close> throw a \<open>TypeError\<close>.
  (The handshake request is written through the socket that the \<open>open\<close> handler
  receives, not through the field.)
\<close>

text \<open>How a call ends: it returns, or it throws. For an \<open>async\<close> function, the
  promise it returned is resolved, or rejected with the error.\<close>

datatype outcome = Returns | Throws error

record 'v session =
  socket :: bool
  sessionId :: "string option"
  encoding :: Encoding
  pending :: "(string \<times> PendingRequest) list"
  subscriptions :: "(string \<times> Subscription) list"
  requestId :: nat
  readBuffer :: Uint8Array
  handshakeResolve :: bool
  handshakeReject :: bool
  handshakeCompleted :: bool
  effects :: "'v effect list"
  callback_throws :: "Subscription \<Rightarrow> 'v ChangeEvent \<Rightarrow> bool"

definition new_session :: "'v session" where
  "new_session =
     \<lparr>socket = False, sessionId = None, encoding = MessagePack, pending = [],
      subscriptions = [], requestId = 0, readBuffer = [], handshakeResolve = False,
      handshakeReject = False, handshakeCompleted = False, effects = [],
      callback_throws = (\<lambda>_ _. False)\<rparr>"

definition emit :: "'v effect \<Rightarrow> 'v session \<Rightarrow> 'v session" where
  "emit e s = s\<lparr>effects := effects s @ [e]\<rparr>"

text \<open>\<open>connectSocket\<close>: the promise executor, up to the return of \<open>Bun.connect\<close>.\<close>

definition connectSocket :: "'v session \<Rightarrow> 'v session" where
  "connectSocket s = s\<lparr>handshakeResolve := True, handshakeReject := True, socket := True\<rparr>"

text \<open>The \<open>error\<close> handler of the socket.\<close>

definition socket_error :: "'v session \<Rightarrow> 'v session" where
  "socket_error s =
     (if \<not> handshakeCompleted s \<and> handshakeReject s then emit (HandshakeReject ConnectionError) s
      else s)"

text \<open>\<open>this.handshakeReject?.(err)\<close> and \<open>this.handshakeResolve?.()\<close>.\<close>

definition call_handshakeReject :: "error \<Rightarrow> 'v session \<Rightarrow> 'v session" where
  "call_handshakeReject err s = (if handshakeReject s then emit (HandshakeReject err) s else s)"

definition call_handshakeResolve :: "'v session \<Rightarrow> 'v session" where
  "call_handshakeResolve s = (if handshakeResolve s then emit HandshakeResolve s else s)"

definition dispatchMessage :: "'v session \<Rightarrow> 'v ServerMessage \<Rightarrow> 'v session" where
  "dispatchMessage s msg =
     (case msg of
        ChangeMsg i change \<Rightarrow>
          (case map_of (subscriptions s) i of
             Some sub \<Rightarrow> emit (CallbackCall sub change) s
           | None \<Rightarrow> s)
      | _ \<Rightarrow>
          (case map_of (pending s) (msg_id msg) of
             Some p \<Rightarrow>
               emit (PromiseResolve p msg) (s\<lparr>pending := AList.delete (msg_id msg) (pending s)\<rparr>)
           | None \<Rightarrow> s))"

text \<open>
  \<open>dispatchMessage\<close> ends in an exception when the callback it calls throws; the
  state is the same, the callback was the last thing it did.
\<close>

definition dispatchMessage_throws :: "'v session \<Rightarrow> 'v ServerMessage \<Rightarrow> bool" where
  "dispatchMessage_throws s msg =
     (case msg of
        ChangeMsg i change \<Rightarrow>
          (case map_of (subscriptions s) i of
             Some sub \<Rightarrow> callback_throws s sub change
           | None \<Rightarrow> False)
      | _ \<Rightarrow> False)"

text \<open>
  One pass through the body of the \<open>while\<close> loop of \<open>processFrames\<close>, entered with
  at least 6 bytes in the buffer: \<open>Return\<close> is a \<open>return\<close> statement, \<open>Next\<close> the end
  of the body. An exception of \<open>parseFrameHeader\<close> would leave the function; the loop
  condition excludes it. The \<open>try\<close> block holds \<open>decodeMessage\<close> and
  \<open>dispatchMessage\<close>: an exception of either is caught and reported on the console
  as a failure to decode.
\<close>

datatype 'a loop_step = Return 'a | Next 'a

definition processFrames_body :: "'v codec \<Rightarrow> 'v session \<Rightarrow> 'v session loop_step" where
  "processFrames_body c s =
     (case parseFrameHeader (readBuffer s) of
        Inl err \<Rightarrow> Return s
      | Inr header \<Rightarrow>
          if payloadLength header > MAX_MESSAGE_SIZE
          then Return (emit (ConsoleErrorTooLarge (payloadLength header)) s)
          else
            (let totalLength = 6 + payloadLength header
             in if int (length (readBuffer s)) < totalLength then Return s
                else
                  (let payload = slice_js (readBuffer s) 6 totalLength;
                       s1 = s\<lparr>readBuffer := slice_from_js (readBuffer s) totalLength\<rparr>
                   in case decodeMessage c payload (frame_encoding header) of
                        Some msg \<Rightarrow>
                          if dispatchMessage_throws s1 msg
                          then Next (emit ConsoleErrorDecode (dispatchMessage s1 msg))
                          else Next (dispatchMessage s1 msg)
                      | None \<Rightarrow> Next (emit ConsoleErrorDecode s1))))"

function processFrames :: "'v codec \<Rightarrow> 'v session \<Rightarrow> 'v session" where
  "processFrames c s =
     (if length (readBuffer s) \<ge> 6
      then (case processFrames_body c s of
              Return s' \<Rightarrow> s'
            | Next s' \<Rightarrow> processFrames c s')
      else s)"
  by pat_completeness auto
termination
proof (relation "measure (\<lambda>(c, s). length (readBuffer s))")
  show "wf (measure (\<lambda>(c :: 'v codec, s :: 'v session). length (readBuffer s)))"
    by simp
next
  fix c :: "'v codec" and s s' :: "'v session"
  assume len: "6 \<le> length (readBuffer s)" and body: "processFrames_body c s = Next s'"
  obtain header where h: "parseFrameHeader (readBuffer s) = Inr header"
    using len by (auto simp: parseFrameHeader_def Let_def)
  have "0 \<le> getUint32 (readBuffer s) 0"
    by (simp add: getUint32_def)
  then have pl: "- 2 \<le> payloadLength header"
    using h len by (auto simp: parseFrameHeader_def Let_def split: if_splits)
  have "readBuffer s' = slice_from_js (readBuffer s) (6 + payloadLength header)
          \<and> 6 + payloadLength header \<le> int (length (readBuffer s))"
    using body h
    by (auto simp: processFrames_body_def Let_def dispatchMessage_def emit_def
        split: if_splits option.splits ServerMessage.splits)
  then have "length (readBuffer s') < length (readBuffer s)"
    using pl by (auto simp: slice_from_js_def relative_index_def min_def)
  then show "((c, s'), (c, s)) \<in> measure (\<lambda>(c, s). length (readBuffer s))"
    by simp
qed

declare processFrames.simps [simp del]

definition handleData :: "'v codec \<Rightarrow> 'v session \<Rightarrow> Uint8Array \<Rightarrow> 'v session" where
  "handleData c s0 data =
     (let s = s0\<lparr>readBuffer := readBuffer s0 @ data\<rparr>
      in if \<not> handshakeCompleted s then
           (if length (readBuffer s) \<ge> 19 then
              (case parseHandshakeResponse (slice_js (readBuffer s) 0 19) of
                 Inl err \<Rightarrow> call_handshakeReject err s
               | Inr response \<Rightarrow>
                   (let s = s\<lparr>readBuffer := slice_from_js (readBuffer s) 19\<rparr>
                    in if status response = 1
                       then call_handshakeReject (VersionMismatchError (version response)) s
                       else if status response = 2
                       then call_handshakeReject AuthenticationFailed s
                       else if status response \<noteq> 0
                       then call_handshakeReject (UnexpectedStatus (status response)) s
                       else call_handshakeResolve
                              (s\<lparr>sessionId := Some (uuidToString (session_id response)),
                                 encoding := (if messagepack (flags response)
                                              then MessagePack else Json),
                                 handshakeCompleted := True\<rparr>)))
            else s)
         else processFrames c s)"

definition handleClose :: "'v session \<Rightarrow> 'v session" where
  "handleClose s =
     s\<lparr>effects := effects s @ map (\<lambda>(_, req). PromiseReject req ConnectionClosed) (pending s),
       pending := []\<rparr>"

text \<open>\<open>String(n)\<close> for a non-negative integer: its decimal digits.\<close>

fun String_of_nat :: "nat \<Rightarrow> string" where
  "String_of_nat n =
     (if n < 10 then [''0123456789'' ! n]
      else String_of_nat (n div 10) @ [''0123456789'' ! (n mod 10)])"

declare String_of_nat.simps [simp del]

text \<open>
  \<open>nextId\<close> returns the new id and the session with the counter advanced. The
  counter is a double: \<open>++this.requestId\<close> adds 1 up to \<open>2 ^ 53\<close> and leaves
  \<open>2 ^ 53\<close> as it is, \<open>2 ^ 53 + 1\<close> being rounded back to it.
\<close>

definition nextId :: "'v session \<Rightarrow> string \<times> 'v session" where
  "nextId s =
     (let n = (if requestId s < 2 ^ 53 then requestId s + 1 else requestId s)
      in (String_of_nat n, s\<lparr>requestId := n\<rparr>))"

fun client_msg_id :: "'v ClientMessage \<Rightarrow> string" where
  "client_msg_id (QueryMsg i _) = i"
| "client_msg_id (SubscribeMsg i _) = i"
| "client_msg_id (UnsubscribeMsg i) = i"
| "client_msg_id (InsertMsg i _ _) = i"
| "client_msg_id (UpdateMsg i _ _ _) = i"
| "client_msg_id (DeleteMsg i _ _) = i"
| "client_msg_id (ListCollectionsMsg i) = i"
| "client_msg_id (PingMsg i) = i"

text \<open>
  \<open>send\<close>: the executor of the promise \<open>p\<close> that the call returns. With a socket
  that is not \<open>null\<close> the entry is registered, the frame is built, and
  \<open>this.socket.write(frame)\<close> throws: an exception in the executor rejects the promise,
  and the entry stays in the table.
\<close>

definition send :: "'v codec \<Rightarrow> 'v session \<Rightarrow> 'v ClientMessage \<Rightarrow> PendingRequest \<Rightarrow> 'v session" where
  "send c s msg p =
     (if \<not> socket s then emit (PromiseReject p NotConnected) s
      else
        (let s = s\<lparr>pending := AList.update (client_msg_id msg) p (pending s)\<rparr>;
             payload = encodeMessage c msg (encoding s);
             frame = buildFrame Request (encoding s) payload
         in emit (PromiseReject p TypeError) s))"

text \<open>
  Every operation of the client is \<open>await this.send(...)\<close> followed by a check of the
  response. The first half sends the request; the second half, named \<open>_response\<close>,
  is what the operation does with the message that fulfilled the promise: \<open>Inl\<close> is
  the error thrown, \<open>Inr\<close> the value returned.
\<close>

definition query :: "'v codec \<Rightarrow> 'v session \<Rightarrow> string \<Rightarrow> PendingRequest \<Rightarrow> 'v session" where
  "query c s q p = (let (i, s) = nextId s in send c s (QueryMsg i q) p)"

definition query_response :: "'v ServerMessage \<Rightarrow> error + 'v" where
  "query_response resp =
     (case resp of
        ErrorMsg _ e \<Rightarrow> Inl (ServerError e)
      | ResultMsg _ d \<Rightarrow> Inr d
      | _ \<Rightarrow> Inl UnexpectedResponse)"

definition queryRaw :: "'v codec \<Rightarrow> 'v session \<Rightarrow> string \<Rightarrow> PendingRequest \<Rightarrow> 'v session" where
  "queryRaw c s q p = (let (i, s) = nextId s in send c s (QueryMsg i q) p)"

definition queryRaw_response :: "'v ServerMessage \<Rightarrow> error + 'v" where
  "queryRaw_response resp =
     (case resp of
        ErrorMsg _ e \<Rightarrow> Inl (ServerError e)
      | ResultMsg _ d \<Rightarrow> Inr d
      | _ \<Rightarrow> Inl UnexpectedResponse)"

definition subscribe :: "'v codec \<Rightarrow> 'v session \<Rightarrow> string \<Rightarrow> PendingRequest \<Rightarrow> string \<times> 'v session" where
  "subscribe c s q p = (let (i, s) = nextId s in (i, send c s (SubscribeMsg i q) p))"

text \<open>The \<open>TcpSubscription\<close> returned is given by its id.\<close>

definition subscribe_response ::
  "'v session \<Rightarrow> string \<Rightarrow> Subscription \<Rightarrow> 'v ServerMessage \<Rightarrow> error + (string \<times> 'v session)" where
  "subscribe_response s i callback resp =
     (case resp of
        ErrorMsg _ e \<Rightarrow> Inl (ServerError e)
      | _ \<Rightarrow> Inr (i, s\<lparr>subscriptions := AList.update i callback (subscriptions s)\<rparr>))"

text \<open>
  \<open>unsubscribe\<close> has no \<open>await\<close>: the promise it returns is resolved when the body
  is through, and rejected when \<open>this.socket.write(frame)\<close> throws.
\<close>

definition unsubscribe :: "'v codec \<Rightarrow> 'v session \<Rightarrow> string \<Rightarrow> outcome \<times> 'v session" where
  "unsubscribe c s0 subscriptionId =
     (let s = s0\<lparr>subscriptions := AList.delete subscriptionId (subscriptions s0)\<rparr>
      in if socket s then
           (let msg = UnsubscribeMsg subscriptionId;
                payload = encodeMessage c msg (encoding s);
                frame = buildFrame Request (encoding s) payload
            in (Throws TypeError, s))
         else (Returns, s))"

definition insert_doc ::
  "'v codec \<Rightarrow> 'v session \<Rightarrow> string \<Rightarrow> 'v \<Rightarrow> PendingRequest \<Rightarrow> 'v session" where
  "insert_doc c s collection d p = (let (i, s) = nextId s in send c s (InsertMsg i collection d) p)"

definition insert_response :: "'v ServerMessage \<Rightarrow> error + 'v" where
  "insert_response resp =
     (case resp of
        ErrorMsg _ e \<Rightarrow> Inl (ServerError e)
      | ResultMsg _ d \<Rightarrow> Inr d
      | _ \<Rightarrow> Inl UnexpectedResponse)"

definition update_doc ::
  "'v codec \<Rightarrow> 'v session \<Rightarrow> string \<Rightarrow> string \<Rightarrow> 'v \<Rightarrow> PendingRequest \<Rightarrow> 'v session" where
  "update_doc c s collection documentId d p =
     (let (i, s) = nextId s in send c s (UpdateMsg i collection documentId d) p)"

definition update_response :: "'v ServerMessage \<Rightarrow> error + 'v" where
  "update_response resp =
     (case resp of
        ErrorMsg _ e \<Rightarrow> Inl (ServerError e)
      | ResultMsg _ d \<Rightarrow> Inr d
      | _ \<Rightarrow> Inl UnexpectedResponse)"

definition delete_doc ::
  "'v codec \<Rightarrow> 'v session \<Rightarrow> string \<Rightarrow> string \<Rightarrow> PendingRequest \<Rightarrow> 'v session" where
  "delete_doc c s collection documentId p =
     (let (i, s) = nextId s in send c s (DeleteMsg i collection documentId) p)"

definition delete_response :: "'v ServerMessage \<Rightarrow> error + 'v" where
  "delete_response resp =
     (case resp of
        ErrorMsg _ e \<Rightarrow> Inl (ServerError e)
      | ResultMsg _ d \<Rightarrow> Inr d
      | _ \<Rightarrow> Inl UnexpectedResponse)"

definition listCollections :: "'v codec \<Rightarrow> 'v session \<Rightarrow> PendingRequest \<Rightarrow> 'v session" where
  "listCollections c s p = (let (i, s) = nextId s in send c s (ListCollectionsMsg i) p)"

definition listCollections_response :: "'v ServerMessage \<Rightarrow> error + 'v" where
  "listCollections_response resp =
     (case resp of
        ErrorMsg _ e \<Rightarrow> Inl (ServerError e)
      | ResultMsg _ d \<Rightarrow> Inr d
      | _ \<Rightarrow> Inl UnexpectedResponse)"

definition ping :: "'v codec \<Rightarrow> 'v session \<Rightarrow> PendingRequest \<Rightarrow> 'v session" where
  "ping c s p = (let (i, s) = nextId s in send c s (PingMsg i) p)"

definition ping_response :: "'v ServerMessage \<Rightarrow> error + unit" where
  "ping_response resp = (case resp of PongMsg _ \<Rightarrow> Inr () | _ \<Rightarrow> Inl UnexpectedResponse)"

text \<open>
  \<open>close\<close>: \<open>this.socket?.end()\<close> is a call only when the socket is not \<open>null\<close>,
  and then it throws, before \<open>this.socket = null\<close>.
\<close>

definition close :: "'v session \<Rightarrow> outcome \<times> 'v session" where
  "close s0 =
     (let s = s0\<lparr>subscriptions := []\<rparr>
      in if socket s then (Throws TypeError, s)
         else (Returns, s\<lparr>socket := False\<rparr>))"

section \<open>Reading the trace\<close>

text \<open>
  The promise of \<open>connectSocket\<close> is settled by the first call of
  \<open>handshakeResolve\<close> or \<open>handshakeReject\<close>, nothing else holds its functions.
\<close>

fun settles_connect :: "'v effect \<Rightarrow> bool" where
  "settles_connect HandshakeResolve = True"
| "settles_connect (HandshakeReject _) = True"
| "settles_connect _ = False"

definition connect_settled :: "'v session \<Rightarrow> bool" where
  "connect_settled s = list_ex settles_connect (effects s)"

text \<open>
  Two codecs for the examples. The first encodes to nothing and decodes nothing. For
  the second a message is a string, packed as its bytes, and its own JSON text.
\<close>

definition null_codec :: "'v codec" where
  "null_codec =
     \<lparr>pack = (\<lambda>_. []), unpack = (\<lambda>_. None), JSON_stringify = (\<lambda>_. []),
      JSON_parse = (\<lambda>_. None), TextEncoder_encode = (\<lambda>_. []),
      TextDecoder_decode = (\<lambda>_. [])\<rparr>"


section \<open>Bytes and slices\<close>

lemma replicate_6_plus: "replicate (6 + n) x = x # x # x # x # x # x # replicate n x"
proof -
  have "replicate (6 + n) x = replicate 6 x @ replicate n x" by (simp only: replicate_add)
  also have "replicate 6 x = [x, x, x, x, x, x]" by (simp add: numeral_eq_Suc)
  finally show ?thesis by simp
qed

lemma uint_byte: "uint (word_of_int k :: u8) = k mod 256"
  by (simp add: uint_word_of_int)

lemma u32_bytes:
  assumes "0 \<le> w" "w < 2 ^ 32"
  shows "((w div 2 ^ 24) mod 256) * 2 ^ 24 + ((w div 2 ^ 16) mod 256) * 2 ^ 16
           + ((w div 2 ^ 8) mod 256) * 2 ^ 8 + (w mod 256) = (w::int)"
proof -
  define a where "a = w div 256"
  define b where "b = a div 256"
  define c where "c = b div 256"
  have 1: "w = 256 * a + w mod 256" by (simp add: a_def)
  have 2: "a = 256 * b + a mod 256" by (simp add: b_def)
  have 3: "b = 256 * c + b mod 256" by (simp add: c_def)
  have b: "w div 2 ^ 16 = b" by (simp add: a_def b_def zdiv_zmult2_eq)
  have c: "w div 2 ^ 24 = c" by (simp add: a_def b_def c_def zdiv_zmult2_eq)
  have "0 \<le> c" "c < 256" using assms unfolding c [symmetric] by simp_all
  then have 4: "c mod 256 = c" by simp
  have a: "w div 2 ^ 8 = a" by (simp add: a_def)
  show ?thesis unfolding a b c 4 using 1 2 3 by simp
qed

lemma slice_js_nonneg:
  "0 \<le> a \<Longrightarrow> a \<le> b \<Longrightarrow> slice_js xs a b = take (nat b - nat a) (drop (nat a) xs)"
  by (auto simp: slice_js_def relative_index_def Let_def min_def)

lemma slice_from_js_nonneg: "0 \<le> a \<Longrightarrow> slice_from_js xs a = drop (nat a) xs"
  by (auto simp: slice_from_js_def relative_index_def min_def)

lemma byte_bit0: "(b AND 1 \<noteq> 0) = bit (b::u8) 0"
  using and_exp_eq_0_iff_not_bit [of b 0] by force

lemma byte_bit1: "(b AND 2 \<noteq> 0) = bit (b::u8) 1"
  using and_exp_eq_0_iff_not_bit [of b 1] by force

section \<open>Frames\<close>

lemma buildFrame_bytes:
  "buildFrame mt enc payload =
     (let w = (int (length payload) + 2) mod 2 ^ 32
      in word_of_int (w div 2 ^ 24) # word_of_int (w div 2 ^ 16) # word_of_int (w div 2 ^ 8)
           # word_of_int w # word_of_int (MessageType_code mt) # word_of_int (Encoding_code enc)
           # payload)"
  by (simp add: buildFrame_def setUint32_def setUint8_def set_bytes_def Let_def
      replicate_6_plus)

lemma getUint32_bytes:
  "getUint32 (b0 # b1 # b2 # b3 # rest) 0 =
     uint b0 * 2 ^ 24 + uint b1 * 2 ^ 16 + uint b2 * 2 ^ 8 + uint b3"
  by (simp add: getUint32_def numeral_eq_Suc [of "num.Bit1 num.One"]
      numeral_eq_Suc [of "num.Bit0 num.One"])

lemma getUint32_u32_bytes:
  assumes "0 \<le> w" "w < 2 ^ 32"
  shows "getUint32 (word_of_int (w div 2 ^ 24) # word_of_int (w div 2 ^ 16)
           # word_of_int (w div 2 ^ 8) # word_of_int w # rest) 0 = w"
  unfolding getUint32_bytes uint_byte by (rule u32_bytes [OF assms])

lemma getUint32_buildFrame:
  "getUint32 (buildFrame mt enc payload) 0 = (int (length payload) + 2) mod 2 ^ 32"
proof -
  define w where "w = (int (length payload) + 2) mod 2 ^ 32"
  have w: "0 \<le> w" "w < 2 ^ 32" by (simp_all add: w_def)
  show ?thesis
    unfolding buildFrame_bytes Let_def w_def [symmetric] by (rule getUint32_u32_bytes [OF w])
qed

lemma length_buildFrame: "length (buildFrame mt enc payload) = 6 + length payload"
  by (simp add: buildFrame_bytes Let_def)

lemma buildFrame_nth_4: "buildFrame mt enc payload ! 4 = word_of_int (MessageType_code mt)"
  by (simp add: buildFrame_bytes Let_def numeral_eq_Suc [of "num.Bit0 (num.Bit0 num.One)"] numeral_eq_Suc [of "num.Bit1 num.One"]
      numeral_eq_Suc [of "num.Bit0 num.One"])

lemma buildFrame_nth_5: "buildFrame mt enc payload ! 5 = word_of_int (Encoding_code enc)"
  by (simp add: buildFrame_bytes Let_def numeral_eq_Suc [of "num.Bit1 (num.Bit0 num.One)"] numeral_eq_Suc [of "num.Bit0 (num.Bit0 num.One)"] numeral_eq_Suc [of "num.Bit1 num.One"]
      numeral_eq_Suc [of "num.Bit0 num.One"])

lemma drop_6_buildFrame: "drop 6 (buildFrame mt enc payload) = payload"
  by (simp add: buildFrame_bytes Let_def numeral_eq_Suc [of "num.Bit0 (num.Bit1 num.One)"] numeral_eq_Suc [of "num.Bit1 (num.Bit0 num.One)"] numeral_eq_Suc [of "num.Bit0 (num.Bit0 num.One)"] numeral_eq_Suc [of "num.Bit1 num.One"]
      numeral_eq_Suc [of "num.Bit0 num.One"])

lemma parseFrameHeader_buildFrame:
  "parseFrameHeader (buildFrame mt enc payload) =
     Inr \<lparr>payloadLength = (int (length payload) + 2) mod 2 ^ 32 - 2,
          msgType = word_of_int (MessageType_code mt),
          frame_encoding = word_of_int (Encoding_code enc)\<rparr>"
  unfolding parseFrameHeader_def Let_def
  by (simp only: length_buildFrame getUint32_buildFrame buildFrame_nth_4 buildFrame_nth_5) simp

lemma uint_MessageType_code: "uint (word_of_int (MessageType_code mt) :: u8) = MessageType_code mt"
  by (cases mt) (simp_all add: uint_byte)

lemma uint_Encoding_code: "uint (word_of_int (Encoding_code enc) :: u8) = Encoding_code enc"
  by (cases enc) (simp_all add: uint_byte)

text \<open>
  Claim C5, as the code has it. For every payload of fewer than \<open>2 ^ 32 - 2\<close> bytes and
  every message type and encoding, parsing the header of the built frame succeeds and
  gives the payload's length, the message type and the encoding; the big-endian length
  field of the frame is the payload's length plus 2, the frame has 6 more bytes than
  the payload, and the payload sits unchanged from offset 6 on.
\<close>

theorem frame_roundtrip:
  assumes "int (length payload) + 2 < 2 ^ 32"
  shows "(\<exists>h. parseFrameHeader (buildFrame mt enc payload) = Inr h
            \<and> payloadLength h = int (length payload)
            \<and> uint (msgType h) = MessageType_code mt
            \<and> uint (frame_encoding h) = Encoding_code enc)
         \<and> getUint32 (buildFrame mt enc payload) 0 = int (length payload) + 2
         \<and> length (buildFrame mt enc payload) = 6 + length payload
         \<and> slice_js (buildFrame mt enc payload) 6 (6 + int (length payload)) = payload"
proof -
  have m: "(int (length payload) + 2) mod 2 ^ 32 = int (length payload) + 2"
    using assms by (intro mod_pos_pos_trivial) simp_all
  have field: "getUint32 (buildFrame mt enc payload) 0 = int (length payload) + 2"
    unfolding getUint32_buildFrame by (rule m)
  have parse: "parseFrameHeader (buildFrame mt enc payload) =
     Inr \<lparr>payloadLength = int (length payload),
          msgType = word_of_int (MessageType_code mt),
          frame_encoding = word_of_int (Encoding_code enc)\<rparr>"
    unfolding parseFrameHeader_buildFrame m by simp
  have payload: "slice_js (buildFrame mt enc payload) 6 (6 + int (length payload)) = payload"
    by (simp add: slice_js_nonneg drop_6_buildFrame nat_add_distrib)
  show ?thesis
    by (simp add: parse field payload length_buildFrame uint_MessageType_code
        uint_Encoding_code)
qed

theorem frame_roundtrip_witness:
  "parseFrameHeader (buildFrame Response Json [1, 2, 3]) =
     Inr \<lparr>payloadLength = 3, msgType = 2, frame_encoding = 2\<rparr>
   \<and> getUint32 (buildFrame Response Json [1, 2, 3]) 0 = 5
   \<and> slice_js (buildFrame Response Json [1, 2, 3]) 6 9 = [1, 2, 3]"
  using frame_roundtrip [of "[1, 2, 3]" Response Json]
  by (auto simp: parseFrameHeader_buildFrame)

text \<open>
  The bound is needed: \<open>setUint32\<close> stores the length modulo \<open>2 ^ 32\<close>. For a
  payload of \<open>2 ^ 32 - 2\<close> bytes the length field is 0 and the parsed payload length
  is \<open>-2\<close>.
\<close>

theorem frame_roundtrip_counterexample:
  "parseFrameHeader (buildFrame Request MessagePack (replicate 4294967294 0)) =
     Inr \<lparr>payloadLength = - 2, msgType = 1, frame_encoding = 1\<rparr>
   \<and> int (length (replicate 4294967294 (0 :: u8))) = 4294967294
   \<and> getUint32 (buildFrame Request MessagePack (replicate 4294967294 0)) 0 = 0"
  by (simp add: parseFrameHeader_buildFrame getUint32_buildFrame)


section \<open>Messages\<close>




section \<open>The handshake response\<close>

lemma parseHandshakeResponse_short:
  "length data < 19 \<Longrightarrow>
     parseHandshakeResponse data = Inl (HandshakeResponseTooShort (length data))"
  by (simp add: parseHandshakeResponse_def)

lemma parseHandshakeResponse_long:
  assumes "19 \<le> length data"
  shows "parseHandshakeResponse data =
     Inr \<lparr>status = data ! 0, version = data ! 1,
          flags = \<lparr>messagepack = bit (data ! 2) 0, jsonFallback = bit (data ! 2) 1\<rparr>,
          session_id = take 16 (drop 3 data)\<rparr>"
  using assms
  by (simp add: parseHandshakeResponse_def byteToFlags_def byte_bit0 byte_bit1 slice_js_nonneg)

text \<open>
  Claim C6. Parsing a handshake response fails, with the too-short condition, exactly
  when the input has fewer than 19 bytes. On 19 bytes or more it succeeds: the status is
  byte 0, the version byte 1, the flags are bit 0 (binary encoding) and bit 1 (text
  fallback) of byte 2, and the session id is the 16 bytes 3 to 18.
\<close>

theorem parseHandshakeResponse_layout:
  "((\<exists>err. parseHandshakeResponse data = Inl err) \<longleftrightarrow> length data < 19)
   \<and> (length data < 19 \<longrightarrow>
        parseHandshakeResponse data = Inl (HandshakeResponseTooShort (length data)))
   \<and> (19 \<le> length data \<longrightarrow>
        (\<exists>r. parseHandshakeResponse data = Inr r
           \<and> status r = data ! 0
           \<and> version r = data ! 1
           \<and> messagepack (flags r) = bit (data ! 2) 0
           \<and> jsonFallback (flags r) = bit (data ! 2) 1
           \<and> length (session_id r) = 16
           \<and> (\<forall>i < 16. session_id r ! i = data ! (3 + i))))"
proof (cases "length data < 19")
  case True
  then show ?thesis by (simp add: parseHandshakeResponse_short)
next
  case False
  then have len: "19 \<le> length data" by simp
  show ?thesis using len by (simp add: parseHandshakeResponse_long [OF len])
qed

theorem parseHandshakeResponse_layout_witness:
  "parseHandshakeResponse [0, 1, 3, 0x55, 0x0e, 0x84, 0x00, 0xe2, 0x9b, 0x41, 0xd4, 0xa7,
       0x16, 0x44, 0x66, 0x55, 0x44, 0x00, 0x00] =
     Inr \<lparr>status = 0, version = 1, flags = \<lparr>messagepack = True, jsonFallback = True\<rparr>,
          session_id = [0x55, 0x0e, 0x84, 0x00, 0xe2, 0x9b, 0x41, 0xd4, 0xa7,
       0x16, 0x44, 0x66, 0x55, 0x44, 0x00, 0x00]\<rparr>
   \<and> parseHandshakeResponse [0, 1, 3] = Inl (HandshakeResponseTooShort 3)"
  using parseHandshakeResponse_layout [of "[0, 1, 3, 0x55, 0x0e, 0x84, 0x00, 0xe2, 0x9b, 0x41, 0xd4, 0xa7,
       0x16, 0x44, 0x66, 0x55, 0x44, 0x00, 0x00]"]
    parseHandshakeResponse_layout [of "[0, 1, 3]"]
  by (simp add: parseHandshakeResponse_def byteToFlags_def slice_js_nonneg)


section \<open>Dispatch\<close>

lemma map_of_delete_self: "map_of (AList.delete k al) k = None"
  by (simp add: AList.delete_eq map_of_eq_None_iff image_iff)

lemma dispatchMessage_change:
  "dispatchMessage s (ChangeMsg i change) =
     (case map_of (subscriptions s) i of
        Some sub \<Rightarrow> s\<lparr>effects := effects s @ [CallbackCall sub change]\<rparr>
      | None \<Rightarrow> s)"
  by (simp add: dispatchMessage_def emit_def split: option.splits)

lemma dispatchMessage_other:
  "\<not> is_ChangeMsg msg \<Longrightarrow>
   dispatchMessage s msg =
     (case map_of (pending s) (msg_id msg) of
        Some p \<Rightarrow> s\<lparr>pending := AList.delete (msg_id msg) (pending s),
                     effects := effects s @ [PromiseResolve p msg]\<rparr>
      | None \<Rightarrow> s)"
  by (cases msg) (simp_all add: dispatchMessage_def emit_def split: option.splits)

text \<open>
  Claim C4. A \<open>change\<close> message goes to the callback registered under its id, and is
  dropped when there is none. Any other message whose id is in the Pending Request
  Table removes the entry and resolves its promise, once; one whose id is not there is
  dropped, the session unchanged. So a later response with the id of one already
  delivered is dropped. Whatever comes later under that id, a \<open>change\<close> included,
  leaves both tables as they are and resolves no promise: it calls at most the
  callback of a subscription.
\<close>

theorem dispatchMessage_routing:
  "(\<forall>i change sub. map_of (subscriptions s) i = Some sub \<longrightarrow>
      dispatchMessage s (ChangeMsg i change) = s\<lparr>effects := effects s @ [CallbackCall sub change]\<rparr>)
   \<and> (\<forall>i change. map_of (subscriptions s) i = None \<longrightarrow>
      dispatchMessage s (ChangeMsg i change) = s)
   \<and> (\<forall>msg p. \<not> is_ChangeMsg msg \<and> map_of (pending s) (msg_id msg) = Some p \<longrightarrow>
      dispatchMessage s msg =
        s\<lparr>pending := AList.delete (msg_id msg) (pending s),
          effects := effects s @ [PromiseResolve p msg]\<rparr>
      \<and> map_of (pending (dispatchMessage s msg)) (msg_id msg) = None)
   \<and> (\<forall>msg. \<not> is_ChangeMsg msg \<and> map_of (pending s) (msg_id msg) = None \<longrightarrow>
      dispatchMessage s msg = s)
   \<and> (\<forall>msg later. \<not> is_ChangeMsg msg \<and> \<not> is_ChangeMsg later \<and> msg_id later = msg_id msg \<longrightarrow>
      dispatchMessage (dispatchMessage s msg) later = dispatchMessage s msg)
   \<and> (\<forall>msg later. \<not> is_ChangeMsg msg \<and> msg_id later = msg_id msg \<longrightarrow>
      pending (dispatchMessage (dispatchMessage s msg) later) = pending (dispatchMessage s msg)
      \<and> subscriptions (dispatchMessage (dispatchMessage s msg) later) = subscriptions s
      \<and> (effects (dispatchMessage (dispatchMessage s msg) later) = effects (dispatchMessage s msg)
         \<or> (\<exists>sub change. later = ChangeMsg (msg_id msg) change
               \<and> effects (dispatchMessage (dispatchMessage s msg) later) =
                   effects (dispatchMessage s msg) @ [CallbackCall sub change])))"
proof (intro conjI allI impI)
  fix msg later :: "'a ServerMessage"
  assume a: "\<not> is_ChangeMsg msg \<and> msg_id later = msg_id msg"
  define s1 where "s1 = dispatchMessage s msg"
  have none: "map_of (pending s1) (msg_id msg) = None"
    using a by (simp add: s1_def dispatchMessage_other map_of_delete_self split: option.splits)
  have subs: "subscriptions s1 = subscriptions s"
    using a by (simp add: s1_def dispatchMessage_other split: option.splits)
  have "pending (dispatchMessage s1 later) = pending s1
      \<and> subscriptions (dispatchMessage s1 later) = subscriptions s
      \<and> (effects (dispatchMessage s1 later) = effects s1
         \<or> (\<exists>sub change. later = ChangeMsg (msg_id msg) change
               \<and> effects (dispatchMessage s1 later) = effects s1 @ [CallbackCall sub change]))"
  proof (cases "is_ChangeMsg later")
    case True
    then obtain change where l: "later = ChangeMsg (msg_id msg) change"
      using a by (cases later) auto
    show ?thesis unfolding l
      by (simp add: dispatchMessage_change subs split: option.splits)
  next
    case False
    then have "dispatchMessage s1 later = s1"
      using a none by (simp add: dispatchMessage_other [of later])
    then show ?thesis by (simp add: subs)
  qed
  then show "pending (dispatchMessage (dispatchMessage s msg) later) = pending (dispatchMessage s msg)"
    and "subscriptions (dispatchMessage (dispatchMessage s msg) later) = subscriptions s"
    and "effects (dispatchMessage (dispatchMessage s msg) later) = effects (dispatchMessage s msg)
         \<or> (\<exists>sub change. later = ChangeMsg (msg_id msg) change
               \<and> effects (dispatchMessage (dispatchMessage s msg) later) =
                   effects (dispatchMessage s msg) @ [CallbackCall sub change])"
    unfolding s1_def by blast+
next
  fix msg later :: "'a ServerMessage"
  assume a: "\<not> is_ChangeMsg msg \<and> \<not> is_ChangeMsg later \<and> msg_id later = msg_id msg"
  have "map_of (pending (dispatchMessage s msg)) (msg_id msg) = None"
    using a by (simp add: dispatchMessage_other map_of_delete_self split: option.splits)
  then show "dispatchMessage (dispatchMessage s msg) later = dispatchMessage s msg"
    using a by (simp add: dispatchMessage_other [of later])
qed (simp_all add: dispatchMessage_change dispatchMessage_other map_of_delete_self)

theorem dispatchMessage_routing_witness:
  "dispatchMessage
     (dispatchMessage (new_session\<lparr>pending := [(''3'', 7)]\<rparr>) (ResultMsg ''3'' ()))
     (ResultMsg ''3'' ())
   = new_session\<lparr>effects := [PromiseResolve 7 (ResultMsg ''3'' ())]\<rparr>
   \<and> dispatchMessage (new_session\<lparr>subscriptions := [(''1'', 4)]\<rparr>)
        (ChangeMsg ''1'' (ChangeInsert (Document ''d'' ''users'' () ''t0'' ''t0'')))
   = new_session\<lparr>subscriptions := [(''1'', 4)],
        effects := [CallbackCall 4 (ChangeInsert (Document ''d'' ''users'' () ''t0'' ''t0''))]\<rparr>
   \<and> dispatchMessage (new_session\<lparr>subscriptions := [(''1'', 4)]\<rparr>)
        (ChangeMsg ''2'' (ChangeInsert (Document ''d'' ''users'' () ''t0'' ''t0'')))
   = new_session\<lparr>subscriptions := [(''1'', 4)]\<rparr>"
  using dispatchMessage_routing [of "new_session\<lparr>pending := [(''3'', 7)]\<rparr> :: unit session"]
    dispatchMessage_routing [of "new_session\<lparr>subscriptions := [(''1'', 4)]\<rparr> :: unit session"]
  by (simp add: new_session_def dispatchMessage_def emit_def AList.delete_eq)


section \<open>Closing\<close>

lemma handleClose_fields:
  "socket (handleClose s) = socket s"
  "sessionId (handleClose s) = sessionId s"
  "encoding (handleClose s) = encoding s"
  "subscriptions (handleClose s) = subscriptions s"
  "requestId (handleClose s) = requestId s"
  "readBuffer (handleClose s) = readBuffer s"
  "handshakeResolve (handleClose s) = handshakeResolve s"
  "handshakeReject (handleClose s) = handshakeReject s"
  "handshakeCompleted (handleClose s) = handshakeCompleted s"
  "pending (handleClose s) = []"
  "effects (handleClose s) =
     effects s @ map (\<lambda>(i, req). PromiseReject req ConnectionClosed) (pending s)"
  by (simp_all add: handleClose_def)

lemma close_fields:
  "subscriptions (snd (close s)) = []"
  "pending (snd (close s)) = pending s"
  "readBuffer (snd (close s)) = readBuffer s"
  "effects (snd (close s)) = effects s"
  by (simp_all add: close_def Let_def)

lemma close_outcome:
  "fst (close s) = (if socket s then Throws TypeError else Returns)"
  "socket (snd (close s)) = socket s"
  by (simp_all add: close_def Let_def)

lemma socket_error_fields:
  "pending (socket_error s) = pending s"
  "subscriptions (socket_error s) = subscriptions s"
  "handshakeCompleted s \<Longrightarrow> socket_error s = s"
  by (simp_all add: socket_error_def emit_def)

text \<open>
  Claim C2, as the code has it. The transport's close event (\<open>handleClose\<close>) rejects
  every entry of the Pending Request Table with "connection closed", in table order,
  and empties the table; it leaves the Subscription Table alone. The transport's error
  event touches neither table, and nothing at all once the handshake is completed. The
  user's \<open>close\<close> empties the Subscription Table, calling no callback and rejecting no
  request; it leaves the Pending Request Table alone. The two tables are both empty
  once the close event and the user's \<open>close\<close> have both run, in either order.
\<close>

theorem close_semantics:
  "pending (handleClose s) = []
   \<and> effects (handleClose s) =
       effects s @ map (\<lambda>(i, req). PromiseReject req ConnectionClosed) (pending s)
   \<and> (\<forall>(i, req) \<in> set (pending s).
         PromiseReject req ConnectionClosed \<in> set (effects (handleClose s)))
   \<and> subscriptions (handleClose s) = subscriptions s
   \<and> pending (socket_error s) = pending s
   \<and> subscriptions (socket_error s) = subscriptions s
   \<and> (handshakeCompleted s \<longrightarrow> socket_error s = s)
   \<and> subscriptions (snd (close s)) = []
   \<and> pending (snd (close s)) = pending s
   \<and> effects (snd (close s)) = effects s
   \<and> pending (handleClose (snd (close s))) = []
   \<and> subscriptions (handleClose (snd (close s))) = []
   \<and> pending (snd (close (handleClose s))) = []
   \<and> subscriptions (snd (close (handleClose s))) = []"
  by (auto simp: handleClose_fields close_fields socket_error_fields)

theorem close_semantics_witness:
  "handleClose (new_session\<lparr>socket := True, handshakeCompleted := True,
       pending := [(''1'', 10), (''2'', 11)], subscriptions := [(''0'', 5)]\<rparr> :: unit session)
   = new_session\<lparr>socket := True, handshakeCompleted := True, subscriptions := [(''0'', 5)],
       effects := [PromiseReject 10 ConnectionClosed, PromiseReject 11 ConnectionClosed]\<rparr>
   \<and> socket_error (new_session\<lparr>socket := True, handshakeCompleted := True,
       pending := [(''1'', 10), (''2'', 11)], subscriptions := [(''0'', 5)]\<rparr> :: unit session)
   = new_session\<lparr>socket := True, handshakeCompleted := True,
       pending := [(''1'', 10), (''2'', 11)], subscriptions := [(''0'', 5)]\<rparr>
   \<and> subscriptions (handleClose (snd (close (new_session\<lparr>socket := True,
       handshakeCompleted := True, pending := [(''1'', 10), (''2'', 11)],
       subscriptions := [(''0'', 5)]\<rparr> :: unit session)))) = []
   \<and> effects (handleClose (snd (close (new_session\<lparr>socket := True,
       handshakeCompleted := True, pending := [(''1'', 10), (''2'', 11)],
       subscriptions := [(''0'', 5)]\<rparr> :: unit session))))
     = [PromiseReject 10 ConnectionClosed, PromiseReject 11 ConnectionClosed]"
  using close_semantics [of "new_session\<lparr>socket := True, handshakeCompleted := True,
       pending := [(''1'', 10), (''2'', 11)], subscriptions := [(''0'', 5)]\<rparr> :: unit session"]
  by (simp add: new_session_def handleClose_def close_def socket_error_def)

text \<open>
  With two requests pending and one subscription, the handshake completed: after the
  close event the subscription is still registered; after the error event both tables
  are as before; after \<open>close\<close> the two requests are still pending and nothing was
  rejected.
\<close>

theorem close_semantics_counterexample:
  "subscriptions (handleClose (new_session\<lparr>socket := True, handshakeCompleted := True,
       pending := [(''1'', 10), (''2'', 11)], subscriptions := [(''0'', 5)]\<rparr> :: unit session))
     = [(''0'', 5)]
   \<and> pending (socket_error (new_session\<lparr>socket := True, handshakeCompleted := True,
       pending := [(''1'', 10), (''2'', 11)], subscriptions := [(''0'', 5)]\<rparr> :: unit session))
     = [(''1'', 10), (''2'', 11)]
   \<and> subscriptions (socket_error (new_session\<lparr>socket := True, handshakeCompleted := True,
       pending := [(''1'', 10), (''2'', 11)], subscriptions := [(''0'', 5)]\<rparr> :: unit session))
     = [(''0'', 5)]
   \<and> effects (socket_error (new_session\<lparr>socket := True, handshakeCompleted := True,
       pending := [(''1'', 10), (''2'', 11)], subscriptions := [(''0'', 5)]\<rparr> :: unit session))
     = []
   \<and> pending (snd (close (new_session\<lparr>socket := True, handshakeCompleted := True,
       pending := [(''1'', 10), (''2'', 11)], subscriptions := [(''0'', 5)]\<rparr> :: unit session)))
     = [(''1'', 10), (''2'', 11)]
   \<and> effects (snd (close (new_session\<lparr>socket := True, handshakeCompleted := True,
       pending := [(''1'', 10), (''2'', 11)], subscriptions := [(''0'', 5)]\<rparr> :: unit session)))
     = []"
  by (simp add: new_session_def handleClose_def close_def socket_error_def)

section \<open>The handshake promise\<close>

lemma handleData_waiting:
  assumes "\<not> handshakeCompleted s" "length (readBuffer s) + length data < 19"
  shows "handleData c s data = s\<lparr>readBuffer := readBuffer s @ data\<rparr>"
  using assms by (simp add: handleData_def Let_def)

lemma foldl_handleData_waiting:
  assumes "\<not> handshakeCompleted s" "length (readBuffer s) + length (concat chunks) < 19"
  shows "foldl (handleData c) s chunks = s\<lparr>readBuffer := readBuffer s @ concat chunks\<rparr>"
  using assms
proof (induction chunks arbitrary: s)
  case Nil
  then show ?case by simp
next
  case (Cons d ds)
  have step: "handleData c s d = s\<lparr>readBuffer := readBuffer s @ d\<rparr>"
    using Cons.prems by (intro handleData_waiting) simp_all
  have "foldl (handleData c) (s\<lparr>readBuffer := readBuffer s @ d\<rparr>) ds =
          (s\<lparr>readBuffer := readBuffer s @ d\<rparr>)\<lparr>readBuffer := readBuffer (s\<lparr>readBuffer := readBuffer s @ d\<rparr>) @ concat ds\<rparr>"
    using Cons.prems by (intro Cons.IH) simp_all
  then show ?case by (simp add: step)
qed

lemma connect_settled_handleClose: "connect_settled (handleClose s) = connect_settled s"
  by (induction "pending s" arbitrary: s)
    (auto simp: connect_settled_def handleClose_def list_ex_iff)

text \<open>
  Claim C10. \<open>handleClose\<close> leaves the handshake slot (\<open>handshakeCompleted\<close>,
  \<open>handshakeResolve\<close>, \<open>handshakeReject\<close>), the Subscription Table and the receive
  buffer as they are, and settles the promise of the connect operation in no case.
  So when, after \<open>connectSocket\<close>, the data events bring fewer than 19 bytes in all
  and the close event follows, the handshake is not completed and the promise is
  neither resolved nor rejected.
\<close>

theorem handleClose_frame:
  "handshakeCompleted (handleClose s) = handshakeCompleted s
   \<and> handshakeResolve (handleClose s) = handshakeResolve s
   \<and> handshakeReject (handleClose s) = handshakeReject s
   \<and> subscriptions (handleClose s) = subscriptions s
   \<and> readBuffer (handleClose s) = readBuffer s
   \<and> connect_settled (handleClose s) = connect_settled s
   \<and> (length (concat chunks) < 19 \<longrightarrow>
        \<not> connect_settled
            (handleClose (foldl (handleData (c :: 'v codec)) (connectSocket new_session) chunks))
        \<and> \<not> handshakeCompleted (handleClose (foldl (handleData c) (connectSocket new_session) chunks)))"
proof -
  let ?s0 = "connectSocket new_session :: 'v session"
  have s0: "\<not> handshakeCompleted ?s0" "readBuffer ?s0 = []" "effects ?s0 = []"
    by (simp_all add: connectSocket_def new_session_def)
  have "length (concat chunks) < 19 \<Longrightarrow>
      foldl (handleData c) ?s0 chunks = ?s0\<lparr>readBuffer := readBuffer ?s0 @ concat chunks\<rparr>"
    using s0 by (intro foldl_handleData_waiting) simp_all
  then have "length (concat chunks) < 19 \<Longrightarrow>
      \<not> connect_settled (foldl (handleData c) ?s0 chunks)
      \<and> \<not> handshakeCompleted (foldl (handleData c) ?s0 chunks)"
    using s0 by (simp add: connect_settled_def)
  then show ?thesis
    by (simp add: handleClose_fields connect_settled_handleClose)
qed

theorem handleClose_frame_witness:
  "handleClose (foldl (handleData null_codec) (connectSocket new_session) [[0, 1], [3, 9, 9]])
   = (new_session\<lparr>socket := True, handshakeResolve := True, handshakeReject := True,
        readBuffer := [0, 1, 3, 9, 9]\<rparr> :: unit session)
   \<and> \<not> connect_settled
        (handleClose (foldl (handleData null_codec) (connectSocket new_session) [[0, 1], [3, 9, 9]])
          :: unit session)"
  using handleClose_frame [of "connectSocket new_session :: unit session" "[[0, 1], [3, 9, 9]]" null_codec]
    handleClose_frame [of "foldl (handleData null_codec) (connectSocket new_session) [[0, 1], [3, 9, 9]] :: unit session" "[[0, 1], [3, 9, 9]]" null_codec]
  by (simp add: handleData_def Let_def connectSocket_def new_session_def handleClose_def)


section \<open>Unsubscribing\<close>

lemma unsubscribe_fields:
  "subscriptions (snd (unsubscribe c s i)) = AList.delete i (subscriptions s)"
  "pending (snd (unsubscribe c s i)) = pending s"
  "socket (snd (unsubscribe c s i)) = socket s"
  "effects (snd (unsubscribe c s i)) = effects s"
  by (simp_all add: unsubscribe_def Let_def)

lemma unsubscribe_outcome:
  "fst (unsubscribe c s i) = (if socket s then Throws TypeError else Returns)"
  by (simp add: unsubscribe_def Let_def)

lemma unsubscribe_then_change:
  "dispatchMessage (snd (unsubscribe c s i)) (ChangeMsg i change) = snd (unsubscribe c s i)"
  by (simp add: dispatchMessage_change unsubscribe_fields map_of_delete_self)

lemma handshake_success_example:
  "handleData null_codec (connectSocket new_session :: unit session)
     [0, 1, 1, 0x55, 0x0e, 0x84, 0x00, 0xe2, 0x9b, 0x41, 0xd4, 0xa7, 0x16, 0x44, 0x66, 0x55,
      0x44, 0x00, 0x00]
   = new_session\<lparr>socket := True, handshakeResolve := True, handshakeReject := True,
       sessionId := Some ''550e8400-e29b-41d4-a716-446655440000'', handshakeCompleted := True,
       effects := [HandshakeResolve]\<rparr>"
  by (simp add: handleData_def connectSocket_def new_session_def Let_def
      parseHandshakeResponse_def slice_js_nonneg slice_from_js_nonneg byteToFlags_def
      call_handshakeResolve_def emit_def uuidToString_def byte_hex_def hex_digit_def)

text \<open>
  Claim C9 says that \<open>unsubscribe\<close> always resolves. On a client that has connected
  (\<open>connectSocket\<close>, then the 19 bytes of a successful handshake response),
  \<open>unsubscribe\<close> of the id 4 ends in a \<open>TypeError\<close>: \<open>this.socket.write(frame)\<close>
  throws, the promise is rejected, no request is written, and the Pending Request Table
  is as before. A subscription under the id is deleted before that. Without a socket
  \<open>unsubscribe\<close> deletes the subscription and resolves.
\<close>

theorem unsubscribe_connected_rejects:
  "unsubscribe null_codec
     (handleData null_codec (connectSocket new_session :: unit session)
        [0, 1, 1, 0x55, 0x0e, 0x84, 0x00, 0xe2, 0x9b, 0x41, 0xd4, 0xa7, 0x16, 0x44, 0x66,
         0x55, 0x44, 0x00, 0x00]) ''4''
   = (Throws TypeError,
      new_session\<lparr>socket := True, handshakeResolve := True, handshakeReject := True,
        sessionId := Some ''550e8400-e29b-41d4-a716-446655440000'',
        handshakeCompleted := True, effects := [HandshakeResolve]\<rparr>)
   \<and> unsubscribe null_codec
       ((handleData null_codec (connectSocket new_session :: unit session)
          [0, 1, 1, 0x55, 0x0e, 0x84, 0x00, 0xe2, 0x9b, 0x41, 0xd4, 0xa7, 0x16, 0x44, 0x66,
           0x55, 0x44, 0x00, 0x00])\<lparr>subscriptions := [(''4'', 9)]\<rparr>) ''4''
   = (Throws TypeError,
      new_session\<lparr>socket := True, handshakeResolve := True, handshakeReject := True,
        sessionId := Some ''550e8400-e29b-41d4-a716-446655440000'',
        handshakeCompleted := True, effects := [HandshakeResolve]\<rparr>)
   \<and> unsubscribe null_codec (new_session\<lparr>subscriptions := [(''4'', 9)]\<rparr> :: unit session) ''4''
   = (Returns, new_session)"
  unfolding handshake_success_example
  by (simp add: unsubscribe_def new_session_def Let_def AList.delete_eq)

section \<open>Checking the response\<close>

text \<open>
  Claim C3, as the code has it. For \<open>query\<close>, \<open>queryRaw\<close>, \<open>insert\<close>,
  \<open>update\<close>, \<open>delete\<close> and \<open>listCollections\<close>: an \<open>error\<close> response fails with
  the server's text, a \<open>result\<close> response returns its data, every other response fails
  with "unexpected response". For \<open>ping\<close>: a \<open>pong\<close> succeeds, every other
  response, \<open>error\<close> included, fails with "unexpected response". For \<open>subscribe\<close>:
  an \<open>error\<close> response fails with the server's text, every other response is taken as
  the acknowledgement and the callback is registered.
\<close>

theorem response_validation:
  fixes resp :: "'v ServerMessage" and s :: "'v session"
  shows
  "(\<forall>i e. resp = ErrorMsg i e \<longrightarrow>
        query_response resp = Inl (ServerError e)
        \<and> queryRaw_response resp = Inl (ServerError e)
        \<and> insert_response resp = Inl (ServerError e)
        \<and> update_response resp = Inl (ServerError e)
        \<and> delete_response resp = Inl (ServerError e)
        \<and> listCollections_response resp = Inl (ServerError e)
        \<and> subscribe_response s k callback resp = Inl (ServerError e))
   \<and> (\<forall>i d. resp = ResultMsg i d \<longrightarrow>
        query_response resp = Inr d
        \<and> queryRaw_response resp = Inr d
        \<and> insert_response resp = Inr d
        \<and> update_response resp = Inr d
        \<and> delete_response resp = Inr d
        \<and> listCollections_response resp = Inr d)
   \<and> ((\<forall>i e. resp \<noteq> ErrorMsg i e) \<and> (\<forall>i d. resp \<noteq> ResultMsg i d) \<longrightarrow>
        query_response resp = Inl UnexpectedResponse
        \<and> queryRaw_response resp = Inl UnexpectedResponse
        \<and> insert_response resp = Inl UnexpectedResponse
        \<and> update_response resp = Inl UnexpectedResponse
        \<and> delete_response resp = Inl UnexpectedResponse
        \<and> listCollections_response resp = Inl UnexpectedResponse)
   \<and> (\<forall>i. resp = PongMsg i \<longrightarrow> ping_response resp = Inr ())
   \<and> ((\<forall>i. resp \<noteq> PongMsg i) \<longrightarrow> ping_response resp = Inl UnexpectedResponse)
   \<and> ((\<forall>i e. resp \<noteq> ErrorMsg i e) \<longrightarrow>
        subscribe_response s k callback resp =
          Inr (k, s\<lparr>subscriptions := AList.update k callback (subscriptions s)\<rparr>))"
  by (cases resp)
    (simp_all add: query_response_def queryRaw_response_def insert_response_def
      update_response_def delete_response_def listCollections_response_def
      ping_response_def subscribe_response_def)

theorem response_validation_witness:
  "query_response (PongMsg ''1'' :: unit ServerMessage) = Inl UnexpectedResponse
   \<and> query_response (ErrorMsg ''1'' ''no such table'' :: unit ServerMessage)
       = Inl (ServerError ''no such table'')
   \<and> query_response (ResultMsg ''1'' ()) = Inr ()
   \<and> ping_response (PongMsg ''2'' :: unit ServerMessage) = Inr ()
   \<and> ping_response (ResultMsg ''2'' ()) = Inl UnexpectedResponse
   \<and> subscribe_response (new_session :: unit session) ''3'' 8 (SubscribedMsg ''3'')
       = Inr (''3'', new_session\<lparr>subscriptions := [(''3'', 8)]\<rparr>)"
  using response_validation [of "PongMsg ''1'' :: unit ServerMessage" new_session "''3''" 8]
    response_validation [of "ErrorMsg ''1'' ''no such table'' :: unit ServerMessage" new_session "''3''" 8]
    response_validation [of "ResultMsg ''1'' ()" new_session "''3''" 8]
    response_validation [of "PongMsg ''2'' :: unit ServerMessage" new_session "''3''" 8]
    response_validation [of "ResultMsg ''2'' ()" new_session "''3''" 8]
    response_validation [of "SubscribedMsg ''3'' :: unit ServerMessage" new_session "''3''" 8]
  by (simp add: new_session_def)

text \<open>
  \<open>subscribe\<close> accepts a \<open>result\<close> or a \<open>pong\<close> response and registers the
  callback; \<open>ping\<close> answers an \<open>error\<close> response with "unexpected response", the
  server's text is lost.
\<close>

theorem response_validation_counterexample:
  "subscribe_response (new_session :: unit session) ''3'' 8 (ResultMsg ''3'' ())
     = Inr (''3'', new_session\<lparr>subscriptions := [(''3'', 8)]\<rparr>)
   \<and> subscribe_response (new_session :: unit session) ''3'' 8 (PongMsg ''3'')
     = Inr (''3'', new_session\<lparr>subscriptions := [(''3'', 8)]\<rparr>)
   \<and> ping_response (ErrorMsg ''2'' ''server busy'' :: unit ServerMessage)
     = Inl UnexpectedResponse"
  by (simp add: subscribe_response_def ping_response_def new_session_def)


section \<open>Processing frames\<close>

lemma readBuffer_dispatchMessage: "readBuffer (dispatchMessage s msg) = readBuffer s"
  by (cases msg) (simp_all add: dispatchMessage_def emit_def split: option.splits)

lemma parseFrameHeader_append:
  "6 \<le> length xs \<Longrightarrow> parseFrameHeader (xs @ ys) = parseFrameHeader xs"
  by (auto simp: parseFrameHeader_def getUint32_def nth_append Let_def)

lemma parseFrameHeader_Inr_length: "parseFrameHeader data = Inr h \<Longrightarrow> 6 \<le> length data"
  by (simp add: parseFrameHeader_def split: if_splits)

lemma processFrames_oversized:
  assumes "parseFrameHeader (readBuffer s) = Inr h" and "payloadLength h > MAX_MESSAGE_SIZE"
  shows "processFrames c s = s\<lparr>effects := effects s @ [ConsoleErrorTooLarge (payloadLength h)]\<rparr>"
proof -
  have "processFrames_body c s = Return (emit (ConsoleErrorTooLarge (payloadLength h)) s)"
    using assms by (simp add: processFrames_body_def)
  then show ?thesis
    using parseFrameHeader_Inr_length [OF assms(1)]
    by (subst processFrames.simps) (simp add: emit_def)
qed

lemma handleData_oversized:
  assumes "parseFrameHeader (readBuffer s) = Inr h" and "payloadLength h > MAX_MESSAGE_SIZE"
    and "handshakeCompleted s"
  shows "handleData c s data =
           s\<lparr>readBuffer := readBuffer s @ data,
             effects := effects s @ [ConsoleErrorTooLarge (payloadLength h)]\<rparr>"
proof -
  have "parseFrameHeader (readBuffer (s\<lparr>readBuffer := readBuffer s @ data\<rparr>)) = Inr h"
    using assms(1) parseFrameHeader_Inr_length [OF assms(1)]
    by (simp add: parseFrameHeader_append)
  then have "processFrames c (s\<lparr>readBuffer := readBuffer s @ data\<rparr>) =
      (s\<lparr>readBuffer := readBuffer s @ data\<rparr>)
        \<lparr>effects := effects (s\<lparr>readBuffer := readBuffer s @ data\<rparr>)
           @ [ConsoleErrorTooLarge (payloadLength h)]\<rparr>"
    using assms(2) by (rule processFrames_oversized)
  then show ?thesis
    using assms(3) by (simp add: handleData_def Let_def)
qed

text \<open>
  Claim C1, as the code has it. In a session whose buffer starts with a frame header
  that declares a payload of more than 16 MiB, \<open>processFrames\<close> reports it on the
  console and returns. Nothing is dispatched and nothing is consumed: the socket, the
  Pending Request Table, the Subscription Table and the buffer are as before, no
  promise is rejected and the socket is not ended.
\<close>

theorem oversized_frame_stalls:
  assumes "parseFrameHeader (readBuffer s) = Inr h" and "payloadLength h > MAX_MESSAGE_SIZE"
  shows "processFrames c s = s\<lparr>effects := effects s @ [ConsoleErrorTooLarge (payloadLength h)]\<rparr>
    \<and> socket (processFrames c s) = socket s
    \<and> pending (processFrames c s) = pending s
    \<and> subscriptions (processFrames c s) = subscriptions s
    \<and> readBuffer (processFrames c s) = readBuffer s
    \<and> effects (processFrames c s) = effects s @ [ConsoleErrorTooLarge (payloadLength h)]"
  by (simp add: processFrames_oversized [OF assms])

theorem oversized_frame_stalls_witness:
  "processFrames null_codec
     (new_session\<lparr>socket := True, handshakeCompleted := True, pending := [(''1'', 10)],
        readBuffer := [1, 0, 0, 3, 2, 2]\<rparr> :: unit session)
   = new_session\<lparr>socket := True, handshakeCompleted := True, pending := [(''1'', 10)],
        readBuffer := [1, 0, 0, 3, 2, 2], effects := [ConsoleErrorTooLarge 16777217]\<rparr>"
  using oversized_frame_stalls [of
      "new_session\<lparr>socket := True, handshakeCompleted := True, pending := [(''1'', 10)],
        readBuffer := [1, 0, 0, 3, 2, 2]\<rparr> :: unit session"
      "\<lparr>payloadLength = 16777217, msgType = 2, frame_encoding = 2\<rparr>" null_codec]
  by (simp add: new_session_def parseFrameHeader_def getUint32_def MAX_MESSAGE_SIZE_def)

text \<open>
  A header that declares 16777217 bytes, with one request pending: after
  \<open>processFrames\<close> the socket is still there, the request is still pending, the trace
  holds the console message only, and the header is still in the buffer.
\<close>

theorem oversized_frame_counterexample:
  "socket (processFrames null_codec
     (new_session\<lparr>socket := True, handshakeCompleted := True, pending := [(''1'', 10)],
        readBuffer := [1, 0, 0, 3, 2, 2]\<rparr> :: unit session))
   \<and> pending (processFrames null_codec
     (new_session\<lparr>socket := True, handshakeCompleted := True, pending := [(''1'', 10)],
        readBuffer := [1, 0, 0, 3, 2, 2]\<rparr> :: unit session)) = [(''1'', 10)]
   \<and> effects (processFrames null_codec
     (new_session\<lparr>socket := True, handshakeCompleted := True, pending := [(''1'', 10)],
        readBuffer := [1, 0, 0, 3, 2, 2]\<rparr> :: unit session)) = [ConsoleErrorTooLarge 16777217]
   \<and> readBuffer (processFrames null_codec
     (new_session\<lparr>socket := True, handshakeCompleted := True, pending := [(''1'', 10)],
        readBuffer := [1, 0, 0, 3, 2, 2]\<rparr> :: unit session)) = [1, 0, 0, 3, 2, 2]"
proof -
  have h: "parseFrameHeader (readBuffer (new_session\<lparr>socket := True, handshakeCompleted := True,
        pending := [(''1'', 10)], readBuffer := [1, 0, 0, 3, 2, 2]\<rparr> :: unit session))
     = Inr \<lparr>payloadLength = 16777217, msgType = 2, frame_encoding = 2\<rparr>"
    by (simp add: new_session_def parseFrameHeader_def getUint32_def)
  show ?thesis
    by (simp add: processFrames_oversized [OF h] MAX_MESSAGE_SIZE_def) (simp add: new_session_def)
qed

lemma effects_dispatchMessage: "prefix (effects s) (effects (dispatchMessage s msg))"
  by (cases msg) (simp_all add: dispatchMessage_def emit_def split: option.splits)

lemma processFrames_body_extends:
  assumes "processFrames_body c s = Return s' \<or> processFrames_body c s = Next s'"
  shows "prefix (effects s) (effects s') \<and> suffix (readBuffer s') (readBuffer s)"
proof (cases "parseFrameHeader (readBuffer s)")
  case (Inl err)
  then show ?thesis using assms by (simp add: processFrames_body_def)
next
  case (Inr header)
  show ?thesis
  proof (cases "payloadLength header > MAX_MESSAGE_SIZE")
    case True
    then show ?thesis using assms Inr by (auto simp: processFrames_body_def emit_def)
  next
    case False
    show ?thesis
    proof (cases "int (length (readBuffer s)) < 6 + payloadLength header")
      case True
      then show ?thesis
        using assms Inr \<open>\<not> payloadLength header > MAX_MESSAGE_SIZE\<close>
        by (auto simp: processFrames_body_def Let_def)
    next
      case enough: False
      define s1 where
        "s1 = s\<lparr>readBuffer := slice_from_js (readBuffer s) (6 + payloadLength header)\<rparr>"
      have s1: "effects s1 = effects s" "suffix (readBuffer s1) (readBuffer s)"
        by (simp_all add: s1_def slice_from_js_def suffix_drop)
      have d: "prefix (effects s) (effects (dispatchMessage s1 msg))" for msg
        using effects_dispatchMessage [of s1 msg] by (simp add: s1)
      have d': "prefix (effects s) (effects (dispatchMessage s1 msg) @ [ConsoleErrorDecode])"
        for msg
        using d [of msg] by (rule prefix_order.trans) simp
      show ?thesis
        using assms Inr \<open>\<not> payloadLength header > MAX_MESSAGE_SIZE\<close> enough s1 d d'
        by (auto simp: processFrames_body_def Let_def s1_def [symmetric] emit_def
            readBuffer_dispatchMessage split: option.splits if_splits)
    qed
  qed
qed

lemma processFrames_extends:
  "prefix (effects s) (effects (processFrames c s))
   \<and> suffix (readBuffer (processFrames c s)) (readBuffer s)"
proof (induction c s rule: processFrames.induct)
  case (1 c s)
  show ?case
  proof (cases "6 \<le> length (readBuffer s)")
    case False
    then show ?thesis by (subst (1 2) processFrames.simps) simp
  next
    case True
    show ?thesis
    proof (cases "processFrames_body c s")
      case (Return s')
      then have "processFrames c s = s'"
        using True by (subst processFrames.simps) simp
      then show ?thesis
        using processFrames_body_extends [of c s s'] Return by simp
    next
      case (Next s')
      then have step: "processFrames c s = processFrames c s'"
        using True by (subst processFrames.simps) simp
      have a: "prefix (effects s) (effects s')" "suffix (readBuffer s') (readBuffer s)"
        using processFrames_body_extends [of c s s'] Next by simp_all
      have b: "prefix (effects s') (effects (processFrames c s'))"
        "suffix (readBuffer (processFrames c s')) (readBuffer s')"
        using "1.IH" [OF True Next] by simp_all
      show ?thesis
        unfolding step
        using prefix_order.trans [OF a(1) b(1)] suffix_order.trans [OF b(2) a(2)] by simp
    qed
  qed
qed

text \<open>
  Claim C8. \<open>parseFrameHeader\<close> accepts a length field below 2 and returns the negative
  payload length \<open>length - 2\<close>. The loop body then takes an empty payload, removes
  \<open>4 + length\<close> bytes (4 or 5, fewer than the 6 of the header) from the buffer and
  hands the empty payload to the decoder. The loop goes on with what is left, which
  starts inside the old header: \<open>processFrames\<close> returns the state after this pass
  when fewer than 6 bytes are left, and in every case its trace begins with the trace
  of this pass and its buffer is an end piece of what this pass left.
\<close>

theorem short_length_field_desync:
  assumes "6 \<le> length (readBuffer s)" and "getUint32 (readBuffer s) 0 < 2"
  shows "(\<exists>h. parseFrameHeader (readBuffer s) = Inr h
            \<and> payloadLength h = getUint32 (readBuffer s) 0 - 2
            \<and> payloadLength h < 0)
    \<and> (\<exists>s'. processFrames_body c s = Next s'
            \<and> s' = (let s1 = s\<lparr>readBuffer :=
                          drop (nat (4 + getUint32 (readBuffer s) 0)) (readBuffer s)\<rparr>
                    in case decodeMessage c [] (readBuffer s ! 5) of
                         Some msg \<Rightarrow>
                           if dispatchMessage_throws s1 msg
                           then emit ConsoleErrorDecode (dispatchMessage s1 msg)
                           else dispatchMessage s1 msg
                       | None \<Rightarrow> emit ConsoleErrorDecode s1)
            \<and> readBuffer s' = drop (nat (4 + getUint32 (readBuffer s) 0)) (readBuffer s)
            \<and> length (readBuffer s) - length (readBuffer s') = nat (4 + getUint32 (readBuffer s) 0)
            \<and> length (readBuffer s) - length (readBuffer s') < 6
            \<and> (length (readBuffer s') < 6 \<longrightarrow> processFrames c s = s')
            \<and> processFrames c s = processFrames c s'
            \<and> prefix (effects s') (effects (processFrames c s))
            \<and> suffix (readBuffer (processFrames c s))
                 (drop (nat (4 + getUint32 (readBuffer s) 0)) (readBuffer s)))"
proof -
  define n where "n = getUint32 (readBuffer s) 0"
  have n: "0 \<le> n" "n < 2"
    using assms(2) by (simp_all add: n_def getUint32_def)
  have h: "parseFrameHeader (readBuffer s) =
      Inr \<lparr>payloadLength = n - 2, msgType = readBuffer s ! 4, frame_encoding = readBuffer s ! 5\<rparr>"
    using assms(1) by (simp add: parseFrameHeader_def n_def)
  have k: "nat (4 + n) < 6"
    using n by linarith
  have total: "6 + (n - 2) = 4 + n"
    by simp
  have payload: "slice_js (readBuffer s) 6 (4 + n) = []"
    using n k assms(1) by (simp add: slice_js_def relative_index_def Let_def min_def)
  have rest: "slice_from_js (readBuffer s) (4 + n) = drop (nat (4 + n)) (readBuffer s)"
    using n by (simp add: slice_from_js_nonneg)
  define s1 where "s1 = s\<lparr>readBuffer := drop (nat (4 + n)) (readBuffer s)\<rparr>"
  define s' where "s' = (case decodeMessage c [] (readBuffer s ! 5) of
                       Some msg \<Rightarrow>
                         if dispatchMessage_throws s1 msg
                         then emit ConsoleErrorDecode (dispatchMessage s1 msg)
                         else dispatchMessage s1 msg
                     | None \<Rightarrow> emit ConsoleErrorDecode s1)"
  have body: "processFrames_body c s = Next s'"
    using n assms(1)
    by (simp add: processFrames_body_def h total payload rest MAX_MESSAGE_SIZE_def Let_def
        s'_def s1_def split: option.splits)
  have buf: "readBuffer s' = drop (nat (4 + n)) (readBuffer s)"
    by (simp add: s'_def s1_def readBuffer_dispatchMessage emit_def split: option.splits)
  have consumed: "length (readBuffer s) - length (readBuffer s') = nat (4 + n)"
    using n assms(1) by (simp add: buf)
  have loop: "processFrames c s = processFrames c s'"
    using assms(1) body by (subst processFrames.simps) simp
  have stop: "processFrames c s = s'" if "length (readBuffer s') < 6"
    unfolding loop using that by (subst processFrames.simps) simp
  have ext: "prefix (effects s') (effects (processFrames c s))"
    "suffix (readBuffer (processFrames c s)) (drop (nat (4 + n)) (readBuffer s))"
    unfolding loop using processFrames_extends [of s' c] by (simp_all add: buf)
  have parse: "\<exists>h. parseFrameHeader (readBuffer s) = Inr h
            \<and> payloadLength h = n - 2 \<and> payloadLength h < 0"
    using h n by simp
  have pass: "\<exists>t. processFrames_body c s = Next t
            \<and> t = (let s1 = s\<lparr>readBuffer := drop (nat (4 + n)) (readBuffer s)\<rparr>
                    in case decodeMessage c [] (readBuffer s ! 5) of
                         Some msg \<Rightarrow>
                           if dispatchMessage_throws s1 msg
                           then emit ConsoleErrorDecode (dispatchMessage s1 msg)
                           else dispatchMessage s1 msg
                       | None \<Rightarrow> emit ConsoleErrorDecode s1)
            \<and> readBuffer t = drop (nat (4 + n)) (readBuffer s)
            \<and> length (readBuffer s) - length (readBuffer t) = nat (4 + n)
            \<and> length (readBuffer s) - length (readBuffer t) < 6
            \<and> (length (readBuffer t) < 6 \<longrightarrow> processFrames c s = t)
            \<and> processFrames c s = processFrames c t
            \<and> prefix (effects t) (effects (processFrames c s))
            \<and> suffix (readBuffer (processFrames c s)) (drop (nat (4 + n)) (readBuffer s))"
  proof (intro exI [of _ s'] conjI impI)
    show "s' = (let s1 = s\<lparr>readBuffer := drop (nat (4 + n)) (readBuffer s)\<rparr>
                    in case decodeMessage c [] (readBuffer s ! 5) of
                         Some msg \<Rightarrow>
                           if dispatchMessage_throws s1 msg
                           then emit ConsoleErrorDecode (dispatchMessage s1 msg)
                           else dispatchMessage s1 msg
                       | None \<Rightarrow> emit ConsoleErrorDecode s1)"
      unfolding s'_def s1_def Let_def by (rule refl)
    show "length (readBuffer s) - length (readBuffer s') < 6"
      unfolding consumed by (rule k)
  qed (use body buf consumed loop stop ext in simp_all)
  show ?thesis
    using parse pass unfolding n_def by (rule conjI)
qed

theorem short_length_field_desync_witness:
  "parseFrameHeader [0, 0, 0, 1, 2, 2, 9, 9] =
     Inr \<lparr>payloadLength = - 1, msgType = 2, frame_encoding = 2\<rparr>
   \<and> processFrames_body null_codec
       (new_session\<lparr>handshakeCompleted := True, readBuffer := [0, 0, 0, 1, 2, 2, 9, 9]\<rparr>
          :: unit session)
     = Next (new_session\<lparr>handshakeCompleted := True, readBuffer := [2, 9, 9],
               effects := [ConsoleErrorDecode]\<rparr>)
   \<and> processFrames null_codec
       (new_session\<lparr>handshakeCompleted := True, readBuffer := [0, 0, 0, 1, 2, 2, 9, 9]\<rparr>
          :: unit session)
     = new_session\<lparr>handshakeCompleted := True, readBuffer := [2, 9, 9],
               effects := [ConsoleErrorDecode]\<rparr>"
  using short_length_field_desync [of
      "new_session\<lparr>handshakeCompleted := True, readBuffer := [0, 0, 0, 1, 2, 2, 9, 9]\<rparr>
          :: unit session" null_codec]
  by (simp add: new_session_def parseFrameHeader_def getUint32_def decodeMessage_def
      null_codec_def emit_def Let_def)


end
